theory Spec2Isabelle
  imports Complex_Main
begin

section \<open>The product catalog handler of pages/api/products.js\<close>

text \<open>
  The handler is JavaScript: every value it touches (request body, query parameters, the
  value stored under the key products, the parsed seed file) is dynamically typed. The
  embedding therefore works on a datatype of JavaScript values and writes out truthiness,
  the operators \<open>||\<close>, \<open>&&\<close>, \<open>===\<close>, property access and the array methods the
  source calls. Exceptions are values of type \<open>error\<close>; a function that can throw
  returns \<open>error + 'a\<close>. The key-value store, the seed file and the clock are explicit:
  functions that touch the store take it and return it updated.
\<close>

subsection \<open>JavaScript values\<close>

text \<open>
  \<open>JNum\<close> stands for a JavaScript number; only its zero test and its equality are ever
  observed by the handler. \<open>JObj\<close> is an object given by its own properties, looked up
  with \<open>map_of\<close>. Strings are lists of code units, written as 8-bit characters (text
  outside ASCII in UTF-8, on which \<open>includes\<close> finds the same occurrences).
\<close>

datatype jsval =
    JUndefined
  | JNull
  | JBool bool
  | JNum real
  | JStr string
  | JArr "jsval list"
  | JObj "(string \<times> jsval) list"

datatype error = TypeError | Error string

text \<open>Truthiness, as \<open>!v\<close>, \<open>if (v)\<close>, \<open>||\<close> and \<open>&&\<close> test it.\<close>

fun truthy :: "jsval \<Rightarrow> bool" where
  "truthy JUndefined = False"
| "truthy JNull = False"
| "truthy (JBool b) = b"
| "truthy (JNum n) = (n \<noteq> 0)"
| "truthy (JStr s) = (s \<noteq> [])"
| "truthy (JArr xs) = True"
| "truthy (JObj kvs) = True"

definition js_or :: "jsval \<Rightarrow> jsval \<Rightarrow> jsval" where
  "js_or a b = (if truthy a then a else b)"

text \<open>
  \<open>a === b\<close>. Two objects or two arrays are equal only when they are the same reference;
  every comparison of the handler is between values that were deserialised separately
  (store, request, environment), so such a pair is never equal. \<open>Array.prototype.includes\<close>
  compares with SameValueZero, which differs from \<open>===\<close> on NaN only.
\<close>

fun strict_eq :: "jsval \<Rightarrow> jsval \<Rightarrow> bool" where
  "strict_eq JUndefined JUndefined = True"
| "strict_eq JNull JNull = True"
| "strict_eq (JBool a) (JBool b) = (a = b)"
| "strict_eq (JNum a) (JNum b) = (a = b)"
| "strict_eq (JStr a) (JStr b) = (a = b)"
| "strict_eq _ _ = False"

definition array_includes :: "jsval list \<Rightarrow> jsval \<Rightarrow> bool" where
  "array_includes xs v = list_ex (\<lambda>x. strict_eq x v) xs"

text \<open>
  Property access \<open>v.k\<close> for the property names the handler reads (id, title, imageUrl,
  description, productUrl, ids, api_key): a TypeError on null and undefined, the own
  property of an object, and undefined on every other value.
\<close>

fun nullish :: "jsval \<Rightarrow> bool" where
  "nullish JUndefined = True"
| "nullish JNull = True"
| "nullish _ = False"

fun field :: "jsval \<Rightarrow> string \<Rightarrow> jsval" where
  "field (JObj kvs) k = (case map_of kvs k of None \<Rightarrow> JUndefined | Some v \<Rightarrow> v)"
| "field _ k = JUndefined"

definition get_prop :: "jsval \<Rightarrow> string \<Rightarrow> error + jsval" where
  "get_prop v k = (if nullish v then Inl TypeError else Inr (field v k))"

text \<open>Calling an array method (find, filter, push) on a value that is not an array.\<close>

fun as_array :: "jsval \<Rightarrow> error + jsval list" where
  "as_array (JArr xs) = Inr xs"
| "as_array _ = Inl TypeError"

fun is_array :: "jsval \<Rightarrow> bool" where
  "is_array (JArr xs) = True"
| "is_array _ = False"

text \<open>\<open>xs.filter(f)\<close>, \<open>xs.find(f)\<close> and \<open>xs.map(f)\<close> with a callback that can throw.\<close>

fun js_filter :: "(jsval \<Rightarrow> error + bool) \<Rightarrow> jsval list \<Rightarrow> error + jsval list" where
  "js_filter f [] = Inr []"
| "js_filter f (x # xs) =
     (case f x of
        Inl e \<Rightarrow> Inl e
      | Inr b \<Rightarrow>
          (case js_filter f xs of
             Inl e \<Rightarrow> Inl e
           | Inr ys \<Rightarrow> Inr (if b then x # ys else ys)))"

fun js_find :: "(jsval \<Rightarrow> error + bool) \<Rightarrow> jsval list \<Rightarrow> error + jsval" where
  "js_find f [] = Inr JUndefined"
| "js_find f (x # xs) =
     (case f x of
        Inl e \<Rightarrow> Inl e
      | Inr b \<Rightarrow> if b then Inr x else js_find f xs)"

fun js_map :: "(jsval \<Rightarrow> error + jsval) \<Rightarrow> jsval list \<Rightarrow> error + jsval list" where
  "js_map f [] = Inr []"
| "js_map f (x # xs) =
     (case f x of
        Inl e \<Rightarrow> Inl e
      | Inr y \<Rightarrow>
          (case js_map f xs of
             Inl e \<Rightarrow> Inl e
           | Inr ys \<Rightarrow> Inr (y # ys)))"

subsection \<open>Strings\<close>

text \<open>\<open>s.includes(t)\<close>: \<open>t\<close> occurs in \<open>s\<close> as a contiguous run.\<close>

fun starts_with :: "string \<Rightarrow> string \<Rightarrow> bool" where
  "starts_with s [] = True"
| "starts_with [] (d # t) = False"
| "starts_with (c # s) (d # t) = (c = d \<and> starts_with s t)"

fun str_includes :: "string \<Rightarrow> string \<Rightarrow> bool" where
  "str_includes [] t = (t = [])"
| "str_includes (c # s) t = (starts_with (c # s) t \<or> str_includes s t)"

text \<open>
  \<open>v.toLowerCase()\<close>: only strings have the method; on any other non-null value the call
  is a TypeError (undefined is not a function). The case mapping itself belongs to the
  JavaScript engine (the Unicode tables and the contextual rules of
  \<open>String.prototype.toLowerCase\<close>), not to this program: it is the parameter \<open>lc\<close>, which
  the environment supplies below.
\<close>

fun toLowerCase :: "(string \<Rightarrow> string) \<Rightarrow> jsval \<Rightarrow> error + string" where
  "toLowerCase lc (JStr s) = Inr (lc s)"
| "toLowerCase lc _ = Inl TypeError"

text \<open>\<open>n.toString()\<close> for a non-negative integer: its decimal digits.\<close>

definition digit_char :: "nat \<Rightarrow> char" where
  "digit_char d = ''0123456789'' ! d"

fun toString :: "nat \<Rightarrow> string" where
  "toString n = (if n < 10 then [digit_char n] else toString (n div 10) @ [digit_char (n mod 10)])"

declare toString.simps [simp del]

fun join_comma :: "string list \<Rightarrow> string" where
  "join_comma [] = []"
| "join_comma [s] = s"
| "join_comma (s # t # ss) = s @ '','' @ join_comma (t # ss)"

subsection \<open>Environment, store and request\<close>

text \<open>
  \<open>seed_file\<close> is the outcome of lines 39 and 40: \<open>fs.readFile\<close> throws (\<open>Unreadable\<close>),
  \<open>JSON.parse\<close> throws (\<open>Malformed\<close>), or the parsed value. \<open>now\<close> is what \<open>Date.now()\<close>
  returns during the request. \<open>lowerCase\<close> is the engine's \<open>String.prototype.toLowerCase\<close>
  on strings.
\<close>

datatype seed_file = Unreadable | Malformed | Parsed jsval

record env =
  node_env :: "string option"
  api_key_env :: "string option"
  seed :: seed_file
  now :: nat
  lowerCase :: "string \<Rightarrow> string"

text \<open>
  The store: whether the module-level \<open>redis\<close> client was constructed, the value
  \<open>redis.get('products')\<close> resolves to (\<open>JNull\<close> for a missing key), whether \<open>get\<close> throws,
  and for each coming call of \<open>set\<close> whether it throws (an empty list: none does). The
  trace records every access to the store and to the seed file, in order.
\<close>

datatype event = StoreGet | StoreSet jsval | SeedRead

record store =
  client_ok :: bool
  products_val :: jsval
  get_fails :: bool
  set_faults :: "bool list"
  trace :: "event list"

text \<open>
  A request: header values are strings; a query parameter is a string, or an array of
  strings when it is repeated; the body is whatever the body parser produced.
\<close>

datatype qval = QStr string | QArr "string list"

record request =
  req_method :: string
  headers :: "string \<Rightarrow> string option"
  query :: "string \<Rightarrow> qval option"
  body :: jsval

fun of_header :: "string option \<Rightarrow> jsval" where
  "of_header None = JUndefined"
| "of_header (Some h) = JStr h"

fun of_query :: "qval option \<Rightarrow> jsval" where
  "of_query None = JUndefined"
| "of_query (Some (QStr s)) = JStr s"
| "of_query (Some (QArr ss)) = JArr (map JStr ss)"

text \<open>A query value inside a template literal.\<close>

fun query_string :: "qval option \<Rightarrow> string" where
  "query_string None = ''undefined''"
| "query_string (Some (QStr s)) = s"
| "query_string (Some (QArr ss)) = join_comma ss"

text \<open>
  A response: \<open>Failure m e\<close> is the body \<open>{message: m, error: e.message}\<close>; the message
  text of a TypeError depends on the engine and is kept as the error itself.
\<close>

datatype resp_body = Json jsval | Failure string error | NoBody | Text string

record response =
  status :: nat
  res_headers :: "(string \<times> string list) list"
  res_body :: resp_body

definition cors_headers :: "(string \<times> string list) list" where
  "cors_headers =
     [(''Access-Control-Allow-Origin'', [''*'']),
      (''Access-Control-Allow-Methods'', [''GET, POST, DELETE, OPTIONS'']),
      (''Access-Control-Allow-Headers'', [''Content-Type, X-API-Key''])]"

definition respond :: "nat \<Rightarrow> resp_body \<Rightarrow> response" where
  "respond code b = \<lparr>status = code, res_headers = cors_headers, res_body = b\<rparr>"

subsection \<open>Store accessor (lines 26 to 76)\<close>

definition redis_get :: "store \<Rightarrow> (error + jsval) \<times> store" where
  "redis_get s =
     (let s' = s\<lparr>trace := trace s @ [StoreGet]\<rparr>
      in if get_fails s then (Inl (Error ''redis.get''), s') else (Inr (products_val s), s'))"

definition redis_set :: "store \<Rightarrow> jsval \<Rightarrow> (error + unit) \<times> store" where
  "redis_set s v =
     (let s' = s\<lparr>trace := trace s @ [StoreSet v]\<rparr>
      in case set_faults s of
           [] \<Rightarrow> (Inr (), s'\<lparr>products_val := v\<rparr>)
         | fails # rest \<Rightarrow>
             if fails then (Inl (Error ''redis.set''), s'\<lparr>set_faults := rest\<rparr>)
             else (Inr (), s'\<lparr>products_val := v, set_faults := rest\<rparr>))"

definition writeProducts :: "store \<Rightarrow> jsval \<Rightarrow> (error + unit) \<times> store" where
  "writeProducts s productsArray =
     (if \<not> client_ok s then (Inl (Error ''Database connection not available''), s)
      else case redis_set s productsArray of
             (Inl e, s') \<Rightarrow> (Inl (Error ''Failed to save product data.''), s')
           | (Inr u, s') \<Rightarrow> (Inr (), s'))"

definition readProducts :: "env \<Rightarrow> store \<Rightarrow> (error + jsval) \<times> store" where
  "readProducts e s =
     (if \<not> client_ok s then (Inl (Error ''Database connection not available''), s)
      else case redis_get s of
             (Inl err, s1) \<Rightarrow> (Inl (Error ''Failed to fetch products from database''), s1)
           | (Inr products, s1) \<Rightarrow>
               if \<not> truthy products then
                 (let s2 = s1\<lparr>trace := trace s1 @ [SeedRead]\<rparr>
                  in case seed e of
                       Unreadable \<Rightarrow> (Inr (JArr []), s2)
                     | Malformed \<Rightarrow> (Inr (JArr []), s2)
                     | Parsed initialProducts \<Rightarrow>
                         (case writeProducts s2 initialProducts of
                            (Inl seedError, s3) \<Rightarrow> (Inr (JArr []), s3)
                          | (Inr u, s3) \<Rightarrow> (Inr initialProducts, s3)))
               else (Inr products, s1))"

subsection \<open>Query helpers (lines 79 to 122)\<close>

definition getProductById :: "env \<Rightarrow> store \<Rightarrow> jsval \<Rightarrow> (error + jsval) \<times> store" where
  "getProductById e s productId =
     (case readProducts e s of
        (Inl err, s1) \<Rightarrow> (Inl err, s1)
      | (Inr products, s1) \<Rightarrow>
          (case as_array products of
             Inl err \<Rightarrow> (Inl err, s1)
           | Inr ps \<Rightarrow>
               (case js_find (\<lambda>product. case get_prop product ''id'' of
                                           Inl err \<Rightarrow> Inl err
                                         | Inr i \<Rightarrow> Inr (strict_eq i productId)) ps of
                  Inl err \<Rightarrow> (Inl err, s1)
                | Inr found \<Rightarrow> (Inr (js_or found JNull), s1))))"

definition title_matches :: "(string \<Rightarrow> string) \<Rightarrow> string \<Rightarrow> jsval \<Rightarrow> error + bool" where
  "title_matches lc searchTermLower product =
     (case get_prop product ''title'' of
        Inl err \<Rightarrow> Inl err
      | Inr t \<Rightarrow>
          if \<not> truthy t then Inr False
          else (case toLowerCase lc t of
                  Inl err \<Rightarrow> Inl err
                | Inr titleLower \<Rightarrow> Inr (str_includes titleLower searchTermLower)))"

definition searchProductsByTitle :: "env \<Rightarrow> store \<Rightarrow> jsval \<Rightarrow> (error + jsval) \<times> store" where
  "searchProductsByTitle e s searchTerm =
     (case readProducts e s of
        (Inl err, s1) \<Rightarrow> (Inl err, s1)
      | (Inr products, s1) \<Rightarrow>
          if \<not> truthy searchTerm then (Inr products, s1)
          else (case toLowerCase (lowerCase e) searchTerm of
                  Inl err \<Rightarrow> (Inl err, s1)
                | Inr searchTermLower \<Rightarrow>
                    (case as_array products of
                       Inl err \<Rightarrow> (Inl err, s1)
                     | Inr ps \<Rightarrow>
                         (case js_filter (title_matches (lowerCase e) searchTermLower) ps of
                            Inl err \<Rightarrow> (Inl err, s1)
                          | Inr matching \<Rightarrow> (Inr (JArr matching), s1)))))"

record delete_result =
  deletedCount :: nat
  deletedIds :: "jsval list"
  remainingCount :: nat

definition id_listed :: "jsval list \<Rightarrow> jsval \<Rightarrow> error + bool" where
  "id_listed idsToDelete product =
     (case get_prop product ''id'' of
        Inl err \<Rightarrow> Inl err
      | Inr i \<Rightarrow> Inr (array_includes idsToDelete i))"

definition id_not_listed :: "jsval list \<Rightarrow> jsval \<Rightarrow> error + bool" where
  "id_not_listed idsToDelete product =
     (case get_prop product ''id'' of
        Inl err \<Rightarrow> Inl err
      | Inr i \<Rightarrow> Inr (\<not> array_includes idsToDelete i))"

text \<open>Every exception inside the body is caught and replaced (lines 118 to 121).\<close>

definition delete_failed :: error where
  "delete_failed = Error ''Failed to delete products''"

definition deleteProductsByIds ::
  "env \<Rightarrow> store \<Rightarrow> jsval list \<Rightarrow> (error + delete_result) \<times> store" where
  "deleteProductsByIds e s idsToDelete =
     (case readProducts e s of
        (Inl err, s1) \<Rightarrow> (Inl delete_failed, s1)
      | (Inr allProducts, s1) \<Rightarrow>
          (case as_array allProducts of
             Inl err \<Rightarrow> (Inl delete_failed, s1)
           | Inr ps \<Rightarrow>
               (case js_filter (id_not_listed idsToDelete) ps of
                  Inl err \<Rightarrow> (Inl delete_failed, s1)
                | Inr remainingProducts \<Rightarrow>
                    (case writeProducts s1 (JArr remainingProducts) of
                       (Inl err, s2) \<Rightarrow> (Inl delete_failed, s2)
                     | (Inr u, s2) \<Rightarrow>
                         (case js_filter (id_listed idsToDelete) ps of
                            Inl err \<Rightarrow> (Inl delete_failed, s2)
                          | Inr removed \<Rightarrow>
                              (case js_map (\<lambda>product. get_prop product ''id'') removed of
                                 Inl err \<Rightarrow> (Inl delete_failed, s2)
                               | Inr ids \<Rightarrow>
                                   (Inr \<lparr>deletedCount = length ids, deletedIds = ids,
                                          remainingCount = length remainingProducts\<rparr>, s2)))))))"

subsection \<open>Access gate (lines 125 to 147)\<close>

text \<open>\<open>req.body && req.body.api_key\<close>: the property is read only from a truthy body.\<close>

definition body_api_key :: "request \<Rightarrow> jsval" where
  "body_api_key r = (if truthy (body r) then field (body r) ''api_key'' else body r)"

definition apiKey :: "request \<Rightarrow> jsval" where
  "apiKey r =
     js_or (js_or (of_header (headers r ''x-api-key'')) (of_query (query r ''api_key'')))
       (body_api_key r)"

definition header_or_empty :: "request \<Rightarrow> string \<Rightarrow> string" where
  "header_or_empty r name = (case headers r name of None \<Rightarrow> [] | Some h \<Rightarrow> h)"

definition same_origin :: "request \<Rightarrow> bool" where
  "same_origin r =
     (let referer = header_or_empty r ''referer''; host = header_or_empty r ''host''
      in referer \<noteq> [] \<and> str_includes referer host)"

definition expectedApiKey :: "env \<Rightarrow> jsval" where
  "expectedApiKey e = of_header (api_key_env e)"

definition validateApiKey :: "env \<Rightarrow> request \<Rightarrow> bool" where
  "validateApiKey e r =
     (if node_env e = Some ''development'' then True
      else if same_origin r then True
      else strict_eq (apiKey r) (expectedApiKey e))"

subsection \<open>Request dispatcher (lines 150 to 261)\<close>

definition server_error :: "string \<Rightarrow> error \<Rightarrow> response" where
  "server_error m err = respond 500 (Failure m err)"

definition message :: "string \<Rightarrow> jsval" where
  "message m = JObj [(''message'', JStr m)]"

definition handler_GET :: "env \<Rightarrow> store \<Rightarrow> request \<Rightarrow> response \<times> store" where
  "handler_GET e s r =
     (let id = of_query (query r ''id''); title = of_query (query r ''title'')
      in if truthy id then
           (case getProductById e s id of
              (Inl err, s1) \<Rightarrow> (server_error ''Server error'' err, s1)
            | (Inr product, s1) \<Rightarrow>
                if truthy product then (respond 200 (Json product), s1)
                else (respond 404
                        (Json (message (''Product with ID '' @ query_string (query r ''id'')
                                          @ '' not found''))), s1))
         else if truthy title then
           (case searchProductsByTitle e s title of
              (Inl err, s1) \<Rightarrow> (server_error ''Server error'' err, s1)
            | (Inr filteredProducts, s1) \<Rightarrow> (respond 200 (Json filteredProducts), s1))
         else
           (case readProducts e s of
              (Inl err, s1) \<Rightarrow> (server_error ''Server error'' err, s1)
            | (Inr products, s1) \<Rightarrow> (respond 200 (Json products), s1)))"

definition placeholder :: string where
  "placeholder = ''https://upload.wikimedia.org/wikipedia/commons/1/14/No_Image_Available.jpg''"

definition newProduct :: "env \<Rightarrow> jsval \<Rightarrow> jsval" where
  "newProduct e b =
     JObj [(''id'', JStr (toString (now e))),
           (''title'', field b ''title''),
           (''imageUrl'', js_or (field b ''imageUrl'') (JStr placeholder)),
           (''description'', js_or (field b ''description'') (JStr [])),
           (''productUrl'', field b ''productUrl'')]"

text \<open>\<open>products.push(p)\<close>.\<close>

definition js_push :: "jsval \<Rightarrow> jsval \<Rightarrow> error + jsval" where
  "js_push products p =
     (case as_array products of Inl err \<Rightarrow> Inl err | Inr ps \<Rightarrow> Inr (JArr (ps @ [p])))"

definition handler_POST :: "env \<Rightarrow> store \<Rightarrow> request \<Rightarrow> response \<times> store" where
  "handler_POST e s r =
     (if nullish (body r) then (server_error ''Error adding product'' TypeError, s)
      else if \<not> truthy (field (body r) ''title'') \<or> \<not> truthy (field (body r) ''productUrl'')
      then (respond 400
              (Json (message ''Missing required fields: title and productUrl are required'')), s)
      else
        (case readProducts e s of
           (Inl err, s1) \<Rightarrow> (server_error ''Error adding product'' err, s1)
         | (Inr products, s1) \<Rightarrow>
             (case js_push products (newProduct e (body r)) of
                Inl err \<Rightarrow> (server_error ''Error adding product'' err, s1)
              | Inr products' \<Rightarrow>
                  (case writeProducts s1 products' of
                     (Inl err, s2) \<Rightarrow> (server_error ''Error adding product'' err, s2)
                   | (Inr u, s2) \<Rightarrow> (respond 201 (Json (newProduct e (body r))), s2)))))"

definition ids_rejected :: "jsval \<Rightarrow> bool" where
  "ids_rejected ids = (\<not> truthy ids \<or> \<not> is_array ids \<or> ids = JArr [])"

definition delete_summary :: "delete_result \<Rightarrow> jsval" where
  "delete_summary res =
     JObj [(''message'',
              JStr (''Successfully deleted '' @ toString (deletedCount res) @ '' products'')),
           (''deletedCount'', JNum (real (deletedCount res))),
           (''deletedIds'', JArr (deletedIds res)),
           (''remainingCount'', JNum (real (remainingCount res)))]"

definition handler_DELETE :: "env \<Rightarrow> store \<Rightarrow> request \<Rightarrow> response \<times> store" where
  "handler_DELETE e s r =
     (if nullish (body r) then (server_error ''Error deleting products'' TypeError, s)
      else if ids_rejected (field (body r) ''ids'')
      then (respond 400
              (Json (message
                 ''Request body must include an \"ids\" array with at least one product ID'')), s)
      else
        (case as_array (field (body r) ''ids'') of
           Inl err \<Rightarrow> (server_error ''Error deleting products'' err, s)
         | Inr ids \<Rightarrow>
             (case deleteProductsByIds e s ids of
                (Inl err, s1) \<Rightarrow> (server_error ''Error deleting products'' err, s1)
              | (Inr res, s1) \<Rightarrow> (respond 200 (Json (delete_summary res)), s1))))"

definition handler :: "env \<Rightarrow> store \<Rightarrow> request \<Rightarrow> response \<times> store" where
  "handler e s r =
     (if req_method r = ''OPTIONS'' then (respond 200 NoBody, s)
      else if \<not> (req_method r = ''GET'' \<or> validateApiKey e r)
      then (respond 401 (Json (JObj [(''error'', JStr ''Invalid or missing API key'')])), s)
      else if req_method r = ''GET'' then handler_GET e s r
      else if req_method r = ''POST'' then handler_POST e s r
      else if req_method r = ''DELETE'' then handler_DELETE e s r
      else (\<lparr>status = 405,
             res_headers = cors_headers @ [(''Allow'', [''GET'', ''POST'', ''DELETE''])],
             res_body = Text (''Method '' @ req_method r @ '' Not Allowed'')\<rparr>, s))"

subsection \<open>Vocabulary of the properties\<close>

text \<open>
  The data model: a Product is an object whose id is a string and whose title, when it
  is there, is a string; a catalog is a sequence of Products.
\<close>

fun primitive :: "jsval \<Rightarrow> bool" where
  "primitive (JArr xs) = False"
| "primitive (JObj kvs) = False"
| "primitive v = True"

fun is_string :: "jsval \<Rightarrow> bool" where
  "is_string (JStr s) = True"
| "is_string v = False"

fun is_object :: "jsval \<Rightarrow> bool" where
  "is_object (JObj kvs) = True"
| "is_object v = False"

definition is_product :: "jsval \<Rightarrow> bool" where
  "is_product p =
     (is_object p \<and> is_string (field p ''id'') \<and>
      (field p ''title'' = JUndefined \<or> is_string (field p ''title'')))"

text \<open>The coming call of \<open>redis.set\<close> does not throw.\<close>

definition next_set_ok :: "store \<Rightarrow> bool" where
  "next_set_ok s = (case set_faults s of [] \<Rightarrow> True | fails # rest \<Rightarrow> \<not> fails)"






definition lower_char :: "char \<Rightarrow> char" where
  "lower_char c =
     (case map_of (zip ''ABCDEFGHIJKLMNOPQRSTUVWXYZ'' ''abcdefghijklmnopqrstuvwxyz'') c of
        None \<Rightarrow> c
      | Some l \<Rightarrow> l)"



subsection \<open>Example data\<close>

definition shirt :: jsval where
  "shirt = JObj [(''id'', JStr ''1''), (''title'', JStr ''Blue Shirt''),
                 (''imageUrl'', JStr ''https://example.com/shirt.jpg''),
                 (''description'', JStr ''A blue shirt''),
                 (''productUrl'', JStr ''https://example.com/shirt'')]"

definition mug :: jsval where
  "mug = JObj [(''id'', JStr ''2''), (''title'', JStr ''Coffee Mug''),
               (''imageUrl'', JStr ''https://example.com/mug.jpg''),
               (''description'', JStr []),
               (''productUrl'', JStr ''https://example.com/mug'')]"

definition cap :: jsval where
  "cap = JObj [(''id'', JStr ''3''), (''title'', JStr ''SHIRTS and caps''),
               (''imageUrl'', JStr ''https://example.com/cap.jpg''),
               (''description'', JStr ''One size''),
               (''productUrl'', JStr ''https://example.com/cap'')]"

definition demo_catalog :: "jsval list" where
  "demo_catalog = [shirt, mug, cap]"

definition demo_env :: env where
  "demo_env = \<lparr>node_env = Some ''production'', api_key_env = Some ''s3cret'',
                seed = Parsed (JArr [mug]), now = 1700000000000,
                lowerCase = map lower_char\<rparr>"

definition demo_store :: store where
  "demo_store = \<lparr>client_ok = True, products_val = JArr demo_catalog, get_fails = False,
                  set_faults = [], trace = []\<rparr>"

definition post_request :: request where
  "post_request =
     \<lparr>req_method = ''POST'',
      headers = [''x-api-key'' \<mapsto> ''s3cret'', ''host'' \<mapsto> ''shop.example''],
      query = Map.empty,
      body = JObj [(''title'', JStr ''Green Scarf''),
                   (''productUrl'', JStr ''https://example.com/scarf'')]\<rparr>"

definition emptied_store :: store where
  "emptied_store = demo_store\<lparr>products_val := JArr []\<rparr>"

definition absent_store :: store where
  "absent_store = demo_store\<lparr>products_val := JNull\<rparr>"

definition keyless_env :: env where
  "keyless_env = demo_env\<lparr>api_key_env := None\<rparr>"

definition delete_request :: request where
  "delete_request =
     \<lparr>req_method = ''DELETE'',
      headers = [''host'' \<mapsto> ''shop.example''],
      query = Map.empty,
      body = JObj [(''ids'', JArr [JStr ''2''])]\<rparr>"

definition untitled_post :: request where
  "untitled_post = post_request\<lparr>body := JObj [(''productUrl'', JStr ''https://example.com/x'')]\<rparr>"

definition empty_delete :: request where
  "empty_delete = post_request\<lparr>req_method := ''DELETE'', body := JObj [(''ids'', JArr [])]\<rparr>"

definition bare_image_post :: request where
  "bare_image_post =
     post_request\<lparr>body := JObj [(''title'', JStr ''Green Scarf''), (''imageUrl'', JStr []),
                                  (''description'', JStr []),
                                  (''productUrl'', JStr ''https://example.com/scarf'')]\<rparr>"

definition get_request :: "string \<Rightarrow> string \<Rightarrow> request" where
  "get_request name v =
     \<lparr>req_method = ''GET'', headers = [''host'' \<mapsto> ''shop.example''],
      query = [name \<mapsto> QStr v], body = JUndefined\<rparr>"

definition null_post :: request where
  "null_post = post_request\<lparr>body := JNull\<rparr>"

definition null_delete :: request where
  "null_delete = delete_request\<lparr>body := JNull\<rparr>"

definition query_key_request :: "string \<Rightarrow> request" where
  "query_key_request k =
     \<lparr>req_method = ''DELETE'', headers = [''host'' \<mapsto> ''shop.example''],
      query = [''api_key'' \<mapsto> QStr k], body = JObj [(''ids'', JArr [JStr ''2''])]\<rparr>"

definition body_key_request :: "string \<Rightarrow> request" where
  "body_key_request k =
     \<lparr>req_method = ''DELETE'', headers = [''host'' \<mapsto> ''shop.example''],
      query = Map.empty,
      body = JObj [(''ids'', JArr [JStr ''2'']), (''api_key'', JStr k)]\<rparr>"


section \<open>Properties\<close>

subsection \<open>Helper facts\<close>

lemma strict_eq_primitive: "primitive v \<Longrightarrow> strict_eq x v = (x = v)"
  by (cases x; cases v) auto

lemma array_includes_primitive: "primitive v \<Longrightarrow> array_includes xs v = (v \<in> set xs)"
  by (auto simp: array_includes_def list_ex_iff strict_eq_primitive)

lemma js_filter_total:
  "\<forall>x\<in>set xs. f x = Inr (g x) \<Longrightarrow> js_filter f xs = Inr (filter g xs)"
  by (induction xs) auto

lemma js_map_total:
  "\<forall>x\<in>set xs. f x = Inr (g x) \<Longrightarrow> js_map f xs = Inr (map g xs)"
  by (induction xs) auto

lemma is_product_not_nullish: "is_product p \<Longrightarrow> \<not> nullish p"
  by (cases p) (auto simp: is_product_def)

lemma is_product_id_primitive: "is_product p \<Longrightarrow> primitive (field p ''id'')"
  by (cases "field p ''id''") (auto simp: is_product_def)

lemma id_not_listed_product:
  "is_product p \<Longrightarrow> id_not_listed ids p = Inr (field p ''id'' \<notin> set ids)"
  by (simp add: id_not_listed_def get_prop_def is_product_not_nullish
      array_includes_primitive is_product_id_primitive)

lemma id_listed_product:
  "is_product p \<Longrightarrow> id_listed ids p = Inr (field p ''id'' \<in> set ids)"
  by (simp add: id_listed_def get_prop_def is_product_not_nullish
      array_includes_primitive is_product_id_primitive)

lemma writeProducts_ok:
  "client_ok s \<Longrightarrow> next_set_ok s \<Longrightarrow>
   writeProducts s v =
     (Inr (), s\<lparr>trace := trace s @ [StoreSet v], products_val := v,
                set_faults := tl (set_faults s)\<rparr>)"
  by (auto simp: writeProducts_def redis_set_def next_set_ok_def Let_def split: list.splits)

lemma readProducts_client_ok:
  "readProducts e s = (Inr v, s1) \<Longrightarrow> client_ok s1"
  by (auto simp: readProducts_def redis_get_def writeProducts_def redis_set_def Let_def
      split: if_splits seed_file.splits list.splits prod.splits sum.splits)

lemma readProducts_stored:
  "client_ok s \<Longrightarrow> \<not> get_fails s \<Longrightarrow> truthy (products_val s) \<Longrightarrow>
   readProducts e s = (Inr (products_val s), s\<lparr>trace := trace s @ [StoreGet]\<rparr>)"
  by (simp add: readProducts_def redis_get_def Let_def)

lemma length_filter_partition:
  "length (filter P xs) + length (filter (\<lambda>x. \<not> P x) xs) = length xs"
  by (induction xs) auto

lemma demo_read:
  "readProducts demo_env demo_store = (Inr (JArr demo_catalog), demo_store\<lparr>trace := [StoreGet]\<rparr>)"
  by (simp add: readProducts_def redis_get_def demo_store_def Let_def)

lemma demo_catalog_products: "list_all is_product demo_catalog"
  by (simp add: demo_catalog_def is_product_def shirt_def mug_def cap_def)

subsection \<open>Deleting by id\<close>

text \<open>
  C1. Whenever \<open>readProducts\<close> yields a catalog \<open>ps\<close> and the following write does not
  fail, \<open>deleteProductsByIds\<close> returns a result (it does not throw), writes back exactly
  the Products of \<open>ps\<close> whose id is not among \<open>ids\<close>, in their original order, reports as
  \<open>deletedIds\<close> the ids of the Products whose id is among \<open>ids\<close>, and
  \<open>deletedCount + remainingCount\<close> is the length of \<open>ps\<close>.
\<close>

theorem deleteProductsByIds_partition:
  assumes rd: "readProducts e s = (Inr (JArr ps), s1)"
    and cat: "list_all is_product ps"
    and wr: "next_set_ok s1"
  shows "\<exists>res s2. deleteProductsByIds e s ids = (Inr res, s2)
           \<and> trace s2 = trace s1 @ [StoreSet (JArr (filter (\<lambda>p. field p ''id'' \<notin> set ids) ps))]
           \<and> products_val s2 = JArr (filter (\<lambda>p. field p ''id'' \<notin> set ids) ps)
           \<and> deletedIds res = map (\<lambda>p. field p ''id'') (filter (\<lambda>p. field p ''id'' \<in> set ids) ps)
           \<and> deletedCount res = length (filter (\<lambda>p. field p ''id'' \<in> set ids) ps)
           \<and> remainingCount res = length (filter (\<lambda>p. field p ''id'' \<notin> set ids) ps)
           \<and> deletedCount res + remainingCount res = length ps"
proof -
  let ?keep = "filter (\<lambda>p. field p ''id'' \<notin> set ids) ps"
  let ?gone = "filter (\<lambda>p. field p ''id'' \<in> set ids) ps"
  from cat have prods: "\<forall>p\<in>set ps. is_product p"
    by (simp add: list_all_iff)
  have keep: "js_filter (id_not_listed ids) ps = Inr ?keep"
    using prods by (intro js_filter_total) (simp add: id_not_listed_product)
  have gone: "js_filter (id_listed ids) ps = Inr ?gone"
    using prods by (intro js_filter_total) (simp add: id_listed_product)
  have ids: "js_map (\<lambda>product. get_prop product ''id'') ?gone = Inr (map (\<lambda>p. field p ''id'') ?gone)"
    using prods by (intro js_map_total) (simp add: get_prop_def is_product_not_nullish)
  have ok: "client_ok s1"
    using rd by (rule readProducts_client_ok)
  have run: "deleteProductsByIds e s ids =
      (Inr \<lparr>deletedCount = length ?gone, deletedIds = map (\<lambda>p. field p ''id'') ?gone,
             remainingCount = length ?keep\<rparr>,
       s1\<lparr>trace := trace s1 @ [StoreSet (JArr ?keep)], products_val := JArr ?keep,
          set_faults := tl (set_faults s1)\<rparr>)"
    by (simp add: deleteProductsByIds_def rd keep gone ids writeProducts_ok [OF ok wr])
  have total: "length ?gone + length ?keep = length ps"
    using length_filter_partition [of "\<lambda>p. field p ''id'' \<in> set ids" ps] by simp
  show ?thesis
    unfolding run using total by simp
qed

theorem deleteProductsByIds_partition_witness:
  "\<exists>res s2. deleteProductsByIds demo_env demo_store [JStr ''2'', JStr ''7''] = (Inr res, s2)
     \<and> products_val s2 = JArr [shirt, cap]
     \<and> deletedIds res = [JStr ''2'']
     \<and> deletedCount res = 1 \<and> remainingCount res = 2"
proof -
  have wr: "next_set_ok (demo_store\<lparr>trace := [StoreGet]\<rparr>)"
    by (simp add: next_set_ok_def demo_store_def)
  show ?thesis
    using deleteProductsByIds_partition [OF demo_read demo_catalog_products wr,
        of "[JStr ''2'', JStr ''7'']"]
    by (auto simp: demo_catalog_def shirt_def mug_def cap_def)
qed

subsection \<open>Creating a Product\<close>

lemma truthy_field_object: "truthy (field b k) \<Longrightarrow> \<not> nullish b"
  by (cases b) auto

lemma handler_POST_success:
  assumes title: "truthy (field (body r) ''title'')"
    and url: "truthy (field (body r) ''productUrl'')"
    and rd: "readProducts e s = (Inr (JArr ps), s1)"
    and wr: "next_set_ok s1"
  shows "handler_POST e s r =
     (respond 201 (Json (newProduct e (body r))),
      s1\<lparr>trace := trace s1 @ [StoreSet (JArr (ps @ [newProduct e (body r)]))],
         products_val := JArr (ps @ [newProduct e (body r)]),
         set_faults := tl (set_faults s1)\<rparr>)"
proof -
  have ok: "client_ok s1"
    using rd by (rule readProducts_client_ok)
  have obj: "\<not> nullish (body r)"
    using title by (rule truthy_field_object)
  show ?thesis
    by (simp add: handler_POST_def obj title url rd js_push_def writeProducts_ok [OF ok wr])
qed

lemma post_request_authorized: "validateApiKey demo_env post_request"
  by (simp add: validateApiKey_def demo_env_def post_request_def same_origin_def
      header_or_empty_def apiKey_def js_or_def expectedApiKey_def)

text \<open>
  C2. An authorized POST whose body carries a non-empty (truthy) title and productUrl is
  answered 201 with a new Product, provided the catalog \<open>ps\<close> can be read and the write
  does not fail. The Product's id is the decimal string of the current time, its title and
  productUrl are the body's, its imageUrl is the placeholder and its description the empty
  string when the body omits them, and the store then holds \<open>ps\<close> with exactly this
  Product appended, one entry more than before.
\<close>

theorem handler_POST_appends:
  assumes post: "req_method r = ''POST''"
    and auth: "validateApiKey e r"
    and title: "truthy (field (body r) ''title'')"
    and url: "truthy (field (body r) ''productUrl'')"
    and rd: "readProducts e s = (Inr (JArr ps), s1)"
    and wr: "next_set_ok s1"
  shows "\<exists>p s2. handler e s r = (respond 201 (Json p), s2)
           \<and> field p ''id'' = JStr (toString (now e))
           \<and> field p ''title'' = field (body r) ''title''
           \<and> field p ''productUrl'' = field (body r) ''productUrl''
           \<and> (field (body r) ''imageUrl'' = JUndefined \<longrightarrow> field p ''imageUrl'' = JStr placeholder)
           \<and> (field (body r) ''description'' = JUndefined \<longrightarrow> field p ''description'' = JStr [])
           \<and> products_val s2 = JArr (ps @ [p])
           \<and> length (ps @ [p]) = length ps + 1"
proof -
  have disp: "handler e s r = handler_POST e s r"
    using post auth by (simp add: handler_def)
  show ?thesis
    unfolding disp handler_POST_success [OF title url rd wr]
    by (simp add: newProduct_def js_or_def)
qed

theorem handler_POST_appends_witness:
  "\<exists>p s2. handler demo_env demo_store post_request = (respond 201 (Json p), s2)
     \<and> field p ''id'' = JStr ''1700000000000''
     \<and> field p ''title'' = JStr ''Green Scarf''
     \<and> field p ''imageUrl'' = JStr placeholder
     \<and> field p ''description'' = JStr []
     \<and> products_val s2 = JArr [shirt, mug, cap, p]"
proof -
  have wr: "next_set_ok (demo_store\<lparr>trace := [StoreGet]\<rparr>)"
    by (simp add: next_set_ok_def demo_store_def)
  have "req_method post_request = ''POST''"
    and "truthy (field (body post_request) ''title'')"
    and "truthy (field (body post_request) ''productUrl'')"
    by (simp_all add: post_request_def)
  from handler_POST_appends [OF this(1) post_request_authorized this(2,3) demo_read wr]
  show ?thesis
    by (auto simp: newProduct_def js_or_def post_request_def demo_env_def demo_catalog_def
        toString.simps digit_char_def)
qed

subsection \<open>Seeding\<close>

text \<open>
  C3. The claim, like the comment at line 35 (\<open>If products is null or empty, seed from
  file\<close>), has the seed file loaded whenever the stored value is absent or empty. At a
  store that holds the empty array the code does not do so: the guard at line 36 is
  \<open>!products\<close>, an empty array is truthy, and \<open>readProducts\<close> returns the stored empty array
  after a single \<open>get\<close>, without reading the seed file (here one Product) and without
  writing.
\<close>

theorem readProducts_empty_array_not_seeded:
  "products_val emptied_store = JArr []
   \<and> seed demo_env = Parsed (JArr [mug])
   \<and> readProducts demo_env emptied_store = (Inr (JArr []), emptied_store\<lparr>trace := [StoreGet]\<rparr>)
   \<and> fst (readProducts demo_env emptied_store) \<noteq> Inr (JArr [mug])"
  by (simp add: readProducts_def redis_get_def emptied_store_def demo_store_def demo_env_def
      Let_def)

text \<open>
  What the code does on a falsy stored value (null for a missing key): the seed file is
  read; if it parses and the write does not fail, the parsed value is written to the store
  and returned; and if the file is unreadable or malformed, or the write fails,
  \<open>readProducts\<close> returns the empty array and no error.
\<close>

lemma readProducts_seeds_when_falsy:
  assumes ok: "client_ok s" and get: "\<not> get_fails s" and falsy: "\<not> truthy (products_val s)"
  shows "(\<forall>v. seed e = Parsed v \<and> next_set_ok s \<longrightarrow>
            (\<exists>s'. readProducts e s = (Inr v, s') \<and> products_val s' = v
                  \<and> trace s' = trace s @ [StoreGet, SeedRead, StoreSet v]))
       \<and> (seed e = Unreadable \<or> seed e = Malformed \<or> \<not> next_set_ok s \<longrightarrow>
            (\<exists>s'. readProducts e s = (Inr (JArr []), s')))"
proof (intro conjI allI impI)
  fix v
  assume "seed e = Parsed v \<and> next_set_ok s"
  then show "\<exists>s'. readProducts e s = (Inr v, s') \<and> products_val s' = v
                  \<and> trace s' = trace s @ [StoreGet, SeedRead, StoreSet v]"
    using ok get falsy
    by (auto simp: readProducts_def redis_get_def writeProducts_def redis_set_def
        next_set_ok_def Let_def split: list.splits)
next
  assume "seed e = Unreadable \<or> seed e = Malformed \<or> \<not> next_set_ok s"
  then show "\<exists>s'. readProducts e s = (Inr (JArr []), s')"
    using ok get falsy
    by (auto simp: readProducts_def redis_get_def writeProducts_def redis_set_def
        next_set_ok_def Let_def split: list.splits seed_file.splits)
qed

lemma readProducts_seeds_when_falsy_example:
  "(\<exists>s'. readProducts demo_env absent_store = (Inr (JArr [mug]), s')
         \<and> products_val s' = JArr [mug]
         \<and> trace s' = [StoreGet, SeedRead, StoreSet (JArr [mug])])
   \<and> (\<exists>s'. readProducts (demo_env\<lparr>seed := Malformed\<rparr>) absent_store = (Inr (JArr []), s'))"
proof -
  have h: "client_ok absent_store" "\<not> get_fails absent_store"
    "\<not> truthy (products_val absent_store)" "next_set_ok absent_store"
    by (simp_all add: absent_store_def demo_store_def next_set_ok_def)
  show ?thesis
    using readProducts_seeds_when_falsy [OF h(1,2,3), of demo_env]
      readProducts_seeds_when_falsy [OF h(1,2,3), of "demo_env\<lparr>seed := Malformed\<rparr>"] h(4)
    by (simp add: demo_env_def absent_store_def demo_store_def)
qed

text \<open>
  C9. With a working store, an empty array stored under products is returned as it is,
  after one \<open>get\<close> and nothing else: no read of the seed file, no write. The same holds
  for every truthy stored value, and the seed file is read during \<open>readProducts\<close> only
  when the stored value is falsy.
\<close>

theorem readProducts_empty_array_kept:
  assumes ok: "client_ok s" and get: "\<not> get_fails s"
  shows "(products_val s = JArr [] \<longrightarrow>
            readProducts e s = (Inr (JArr []), s\<lparr>trace := trace s @ [StoreGet]\<rparr>))
       \<and> (truthy (products_val s) \<longrightarrow>
            readProducts e s = (Inr (products_val s), s\<lparr>trace := trace s @ [StoreGet]\<rparr>))
       \<and> (SeedRead \<in> set (trace (snd (readProducts e s))) \<longrightarrow>
            SeedRead \<in> set (trace s) \<or> \<not> truthy (products_val s))"
  using ok get by (auto simp: readProducts_stored)

theorem readProducts_empty_array_kept_witness:
  "readProducts (demo_env\<lparr>seed := Parsed (JArr demo_catalog)\<rparr>) emptied_store =
     (Inr (JArr []), emptied_store\<lparr>trace := [StoreGet]\<rparr>)"
proof -
  have h: "client_ok emptied_store" "\<not> get_fails emptied_store"
    by (simp_all add: emptied_store_def demo_store_def)
  show ?thesis
    using readProducts_empty_array_kept [OF h, of "demo_env\<lparr>seed := Parsed (JArr demo_catalog)\<rparr>"]
    by (simp add: emptied_store_def demo_store_def)
qed

subsection \<open>Access gate\<close>

lemma strict_eq_of_header: "strict_eq v (of_header h) = (v = of_header h)"
  by (cases h) (simp_all add: strict_eq_primitive)

lemma status_handler_POST: "status (fst (handler_POST e s r)) \<in> {201, 400, 500}"
  by (auto simp: handler_POST_def respond_def server_error_def
      split: prod.splits sum.splits)

lemma status_handler_DELETE: "status (fst (handler_DELETE e s r)) \<in> {200, 400, 500}"
  by (auto simp: handler_DELETE_def respond_def server_error_def
      split: prod.splits sum.splits)

lemma status_handler_GET: "status (fst (handler_GET e s r)) \<in> {200, 404, 500}"
  by (auto simp: handler_GET_def respond_def server_error_def Let_def
      split: prod.splits sum.splits)

lemma handler_authorized_not_401:
  "validateApiKey e r \<Longrightarrow> status (fst (handler e s r)) \<noteq> 401"
  using status_handler_POST [of e s r] status_handler_DELETE [of e s r]
    status_handler_GET [of e s r]
  by (auto simp: handler_def respond_def)

text \<open>
  C4. Outside development mode, for a request whose Referer is missing or does not contain
  its Host, \<open>validateApiKey\<close> returns true exactly when the key the caller supplied equals
  the configured secret. The supplied key is the x-api-key header when it is non-empty,
  else the api_key query parameter when it is non-empty, else the api_key property of
  the body (the body itself when the body is falsy); the secret is the value of API_KEY,
  undefined when it is unset. Equality is that of values: a supplied string matches only
  the same string, and an object or array never matches. For every method but GET and
  OPTIONS the handler answers 401 exactly when \<open>validateApiKey\<close> returns false.
\<close>

theorem validateApiKey_exact_match:
  assumes prod: "node_env e \<noteq> Some ''development''"
    and foreign: "header_or_empty r ''referer'' = []
        \<or> \<not> str_includes (header_or_empty r ''referer'') (header_or_empty r ''host'')"
  shows "(let from_body = (if truthy (body r) then field (body r) ''api_key'' else body r);
          from_query = (case query r ''api_key'' of
                          None \<Rightarrow> from_body
                        | Some (QStr k) \<Rightarrow> if k \<noteq> [] then JStr k else from_body
                        | Some (QArr ks) \<Rightarrow> JArr (map JStr ks));
          supplied = (case headers r ''x-api-key'' of
                        None \<Rightarrow> from_query
                      | Some h \<Rightarrow> if h \<noteq> [] then JStr h else from_query);
          secret = (case api_key_env e of None \<Rightarrow> JUndefined | Some k \<Rightarrow> JStr k)
      in validateApiKey e r = (supplied = secret))
     \<and> (req_method r \<noteq> ''GET'' \<and> req_method r \<noteq> ''OPTIONS'' \<longrightarrow>
          (status (fst (handler e s r)) = 401) = (\<not> validateApiKey e r))"
proof
  show "(let from_body = (if truthy (body r) then field (body r) ''api_key'' else body r);
          from_query = (case query r ''api_key'' of
                          None \<Rightarrow> from_body
                        | Some (QStr k) \<Rightarrow> if k \<noteq> [] then JStr k else from_body
                        | Some (QArr ks) \<Rightarrow> JArr (map JStr ks));
          supplied = (case headers r ''x-api-key'' of
                        None \<Rightarrow> from_query
                      | Some h \<Rightarrow> if h \<noteq> [] then JStr h else from_query);
          secret = (case api_key_env e of None \<Rightarrow> JUndefined | Some k \<Rightarrow> JStr k)
      in validateApiKey e r = (supplied = secret))"
    using prod foreign
    by (auto simp: validateApiKey_def same_origin_def apiKey_def js_or_def expectedApiKey_def
        body_api_key_def strict_eq_of_header Let_def split: option.splits qval.splits)
  show "req_method r \<noteq> ''GET'' \<and> req_method r \<noteq> ''OPTIONS'' \<longrightarrow>
          (status (fst (handler e s r)) = 401) = (\<not> validateApiKey e r)"
    using handler_authorized_not_401 [of e r s]
    by (auto simp: handler_def respond_def)
qed

theorem validateApiKey_exact_match_witness:
  "validateApiKey demo_env post_request
   \<and> \<not> validateApiKey demo_env (post_request\<lparr>headers := [''x-api-key'' \<mapsto> ''s3cre'']\<rparr>)
   \<and> validateApiKey demo_env (query_key_request ''s3cret'')
   \<and> \<not> validateApiKey demo_env (query_key_request ''S3cret'')
   \<and> validateApiKey demo_env (body_key_request ''s3cret'')
   \<and> \<not> validateApiKey demo_env (body_key_request ''s3cret '')
   \<and> \<not> validateApiKey demo_env delete_request
   \<and> status (fst (handler demo_env demo_store (body_key_request ''s3cret ''))) = 401
   \<and> status (fst (handler demo_env demo_store (body_key_request ''s3cret''))) \<noteq> 401"
proof -
  have "node_env demo_env \<noteq> Some ''development''"
    by (simp add: demo_env_def)
  from validateApiKey_exact_match [OF this, of post_request]
    validateApiKey_exact_match [OF this, of "post_request\<lparr>headers := [''x-api-key'' \<mapsto> ''s3cre'']\<rparr>"]
    validateApiKey_exact_match [OF this, of "query_key_request ''s3cret''"]
    validateApiKey_exact_match [OF this, of "query_key_request ''S3cret''"]
    validateApiKey_exact_match [OF this, of "body_key_request ''s3cret''" demo_store]
    validateApiKey_exact_match [OF this, of "body_key_request ''s3cret ''" demo_store]
    validateApiKey_exact_match [OF this, of delete_request]
  show ?thesis
    by (simp add: demo_env_def post_request_def delete_request_def query_key_request_def
        body_key_request_def header_or_empty_def)
qed

text \<open>
  C8, as stated, fails: outside development mode, with no Referer, API_KEY unset and no
  key in header, query or body, a request whose body is null is refused. The guard
  \<open>req.body && req.body.api_key\<close> yields the falsy body itself, null, which is not
  \<open>===\<close> the undefined secret: \<open>validateApiKey\<close> returns false and the handler answers 401.
\<close>

theorem validateApiKey_null_body_refused:
  "node_env keyless_env \<noteq> Some ''development''
   \<and> header_or_empty null_delete ''referer'' = []
   \<and> api_key_env keyless_env = None
   \<and> headers null_delete ''x-api-key'' = None
   \<and> query null_delete ''api_key'' = None
   \<and> field (body null_delete) ''api_key'' = JUndefined
   \<and> req_method null_delete = ''DELETE''
   \<and> \<not> validateApiKey keyless_env null_delete
   \<and> status (fst (handler keyless_env demo_store null_delete)) = 401"
  by (simp add: keyless_env_def demo_env_def null_delete_def delete_request_def
      header_or_empty_def validateApiKey_def same_origin_def apiKey_def js_or_def
      body_api_key_def expectedApiKey_def handler_def respond_def)

text \<open>
  C8, amended. Outside development mode, for a request whose Referer is missing or does
  not contain its Host: if API_KEY is unset and the caller supplies no key (no x-api-key
  header, no api_key query parameter, and a body that is undefined or is a truthy value,
  such as an object, without an api_key property), then the supplied key and the expected
  key are both undefined, \<open>validateApiKey\<close> returns true and the handler does not answer
  401.
\<close>

theorem validateApiKey_nothing_configured:
  assumes prod: "node_env e \<noteq> Some ''development''"
    and foreign: "header_or_empty r ''referer'' = []
        \<or> \<not> str_includes (header_or_empty r ''referer'') (header_or_empty r ''host'')"
    and unset: "api_key_env e = None"
    and no_header: "headers r ''x-api-key'' = None"
    and no_query: "query r ''api_key'' = None"
    and no_field: "body r = JUndefined \<or> truthy (body r) \<and> field (body r) ''api_key'' = JUndefined"
  shows "validateApiKey e r
       \<and> apiKey r = JUndefined \<and> expectedApiKey e = JUndefined
       \<and> status (fst (handler e s r)) \<noteq> 401"
proof -
  have key: "apiKey r = JUndefined"
    using no_header no_query no_field by (auto simp: apiKey_def js_or_def body_api_key_def)
  have expected: "expectedApiKey e = JUndefined"
    using unset by (simp add: expectedApiKey_def)
  have gate: "validateApiKey e r"
    by (simp add: validateApiKey_def key expected)
  from gate key expected handler_authorized_not_401 [OF gate]
  show ?thesis by simp
qed

theorem validateApiKey_nothing_configured_witness:
  "validateApiKey keyless_env delete_request
   \<and> status (fst (handler keyless_env demo_store delete_request)) \<noteq> 401"
proof -
  have h: "node_env keyless_env \<noteq> Some ''development''"
    "header_or_empty delete_request ''referer'' = []
        \<or> \<not> str_includes (header_or_empty delete_request ''referer'')
              (header_or_empty delete_request ''host'')"
    "api_key_env keyless_env = None"
    "headers delete_request ''x-api-key'' = None"
    "query delete_request ''api_key'' = None"
    "body delete_request = JUndefined
       \<or> truthy (body delete_request) \<and> field (body delete_request) ''api_key'' = JUndefined"
    by (simp_all add: keyless_env_def demo_env_def delete_request_def header_or_empty_def)
  from validateApiKey_nothing_configured [OF h, of demo_store]
  show ?thesis by simp
qed

subsection \<open>Validation of request bodies\<close>

lemma demo_key_authorizes:
  "headers r ''x-api-key'' = Some ''s3cret'' \<Longrightarrow> validateApiKey demo_env r"
  by (simp add: validateApiKey_def demo_env_def apiKey_def js_or_def expectedApiKey_def)

text \<open>
  C5, as stated, fails: an authorized POST whose body is null has no title, and is
  answered 500, not 400. The destructuring at line 195 throws a TypeError on null, which
  the branch's \<open>catch\<close> turns into the 500 response. The store is not touched.
\<close>

theorem handler_POST_null_body_500:
  "req_method null_post = ''POST''
   \<and> validateApiKey demo_env null_post
   \<and> field (body null_post) ''title'' = JUndefined
   \<and> status (fst (handler demo_env demo_store null_post)) = 500
   \<and> snd (handler demo_env demo_store null_post) = demo_store"
  by (simp add: null_post_def post_request_def demo_env_def validateApiKey_def
      same_origin_def header_or_empty_def apiKey_def js_or_def expectedApiKey_def
      handler_def handler_POST_def server_error_def respond_def)

text \<open>
  C5, amended. An authorized POST whose body is neither null nor undefined and has no
  title or no productUrl (absent or falsy), and an authorized DELETE whose body is neither
  null nor undefined and has no ids, ids that are not an array, or an empty ids array, is
  answered 400, and the store comes back exactly as it was: nothing is read from it or
  written to it (its trace is unchanged), so the catalog is unchanged.
\<close>

theorem handler_rejects_incomplete_body:
  assumes auth: "validateApiKey e r"
    and present: "\<not> nullish (body r)"
    and bad: "req_method r = ''POST''
                \<and> (\<not> truthy (field (body r) ''title'') \<or> \<not> truthy (field (body r) ''productUrl''))
            \<or> req_method r = ''DELETE''
                \<and> (field (body r) ''ids'' = JUndefined \<or> \<not> is_array (field (body r) ''ids'')
                     \<or> field (body r) ''ids'' = JArr [])"
  shows "status (fst (handler e s r)) = 400 \<and> snd (handler e s r) = s"
  using bad
proof
  assume post: "req_method r = ''POST''
      \<and> (\<not> truthy (field (body r) ''title'') \<or> \<not> truthy (field (body r) ''productUrl''))"
  then have "handler e s r = handler_POST e s r"
    using auth by (simp add: handler_def)
  then show ?thesis
    using post present by (auto simp: handler_POST_def respond_def)
next
  assume del: "req_method r = ''DELETE''
      \<and> (field (body r) ''ids'' = JUndefined \<or> \<not> is_array (field (body r) ''ids'')
           \<or> field (body r) ''ids'' = JArr [])"
  then have rej: "ids_rejected (field (body r) ''ids'')"
    by (auto simp: ids_rejected_def)
  from del have "handler e s r = handler_DELETE e s r"
    using auth by (simp add: handler_def)
  then show ?thesis
    using rej present by (simp add: handler_DELETE_def respond_def)
qed

theorem handler_rejects_incomplete_body_witness:
  "status (fst (handler demo_env demo_store untitled_post)) = 400
   \<and> snd (handler demo_env demo_store untitled_post) = demo_store
   \<and> status (fst (handler demo_env demo_store empty_delete)) = 400
   \<and> snd (handler demo_env demo_store empty_delete) = demo_store"
proof -
  have a1: "validateApiKey demo_env untitled_post"
    and a2: "validateApiKey demo_env empty_delete"
    by (simp_all add: demo_key_authorizes untitled_post_def empty_delete_def post_request_def)
  have b1: "\<not> nullish (body untitled_post)" and b2: "\<not> nullish (body empty_delete)"
    by (simp_all add: untitled_post_def empty_delete_def)
  have c1: "req_method untitled_post = ''POST''
                \<and> (\<not> truthy (field (body untitled_post) ''title'')
                     \<or> \<not> truthy (field (body untitled_post) ''productUrl''))
            \<or> req_method untitled_post = ''DELETE''
                \<and> (field (body untitled_post) ''ids'' = JUndefined
                     \<or> \<not> is_array (field (body untitled_post) ''ids'')
                     \<or> field (body untitled_post) ''ids'' = JArr [])"
    by (simp add: untitled_post_def post_request_def)
  have c2: "req_method empty_delete = ''POST''
                \<and> (\<not> truthy (field (body empty_delete) ''title'')
                     \<or> \<not> truthy (field (body empty_delete) ''productUrl''))
            \<or> req_method empty_delete = ''DELETE''
                \<and> (field (body empty_delete) ''ids'' = JUndefined
                     \<or> \<not> is_array (field (body empty_delete) ''ids'')
                     \<or> field (body empty_delete) ''ids'' = JArr [])"
    by (simp add: empty_delete_def post_request_def)
  from handler_rejects_incomplete_body [OF a1 b1 c1, of demo_store]
    handler_rejects_incomplete_body [OF a2 b2 c2, of demo_store]
  show ?thesis by simp
qed

text \<open>
  In general, a body that is null or undefined cannot be destructured: the TypeError is
  caught by the branch's own \<open>catch\<close> and answered 500, again without touching the store.
\<close>

lemma handler_nullish_body:
  assumes auth: "validateApiKey e r" and absent: "nullish (body r)"
    and m: "req_method r = ''POST'' \<or> req_method r = ''DELETE''"
  shows "status (fst (handler e s r)) = 500 \<and> snd (handler e s r) = s"
  using m auth absent
  by (auto simp: handler_def handler_POST_def handler_DELETE_def server_error_def respond_def)

subsection \<open>Defaults of a created Product\<close>

lemma placeholder_not_empty: "placeholder \<noteq> []"
  by (simp add: placeholder_def)

lemma handler_201_is_POST:
  assumes "status (fst (handler e s r)) = 201"
  shows "fst (handler e s r) = respond 201 (Json (newProduct e (body r)))"
proof -
  have g: "status (fst (handler_GET e s r)) \<noteq> 201"
    using status_handler_GET [of e s r] by auto
  have d: "status (fst (handler_DELETE e s r)) \<noteq> 201"
    using status_handler_DELETE [of e s r] by auto
  have p: "status (fst (handler_POST e s r)) = 201 \<Longrightarrow>
           fst (handler_POST e s r) = respond 201 (Json (newProduct e (body r)))"
    by (auto simp: handler_POST_def respond_def server_error_def
        split: if_splits prod.splits sum.splits)
  from assms g d p show ?thesis
    by (auto simp: handler_def respond_def split: if_splits)
qed

text \<open>
  C10. Whenever the handler answers 201, the body of the response is a Product whose
  imageUrl is the request's imageUrl when that is truthy and the placeholder otherwise,
  and whose description is the request's when that is truthy and the empty string
  otherwise: the defaults replace every falsy value (an explicit empty string, null, 0,
  false), not only an absent field. So the created Product's imageUrl is never the empty
  string.
\<close>

theorem created_product_defaults_on_falsy:
  assumes run: "handler e s r = (resp, s')" and created: "status resp = 201"
  shows "\<exists>p. res_body resp = Json p
           \<and> field p ''imageUrl'' =
               (if truthy (field (body r) ''imageUrl'') then field (body r) ''imageUrl''
                else JStr placeholder)
           \<and> field p ''description'' =
               (if truthy (field (body r) ''description'') then field (body r) ''description''
                else JStr [])
           \<and> field p ''imageUrl'' \<noteq> JStr []"
proof -
  from run created have "status (fst (handler e s r)) = 201"
    by simp
  then have "fst (handler e s r) = respond 201 (Json (newProduct e (body r)))"
    by (rule handler_201_is_POST)
  with run have body: "res_body resp = Json (newProduct e (body r))"
    by (simp add: respond_def)
  have "field (newProduct e (body r)) ''imageUrl'' \<noteq> JStr []"
    using placeholder_not_empty by (auto simp: newProduct_def js_or_def)
  with body show ?thesis
    by (simp add: newProduct_def js_or_def)
qed

theorem created_product_defaults_on_falsy_witness:
  "\<exists>p s'. handler demo_env demo_store bare_image_post = (respond 201 (Json p), s')
       \<and> field p ''imageUrl'' = JStr placeholder
       \<and> field p ''description'' = JStr []"
proof -
  have wr: "next_set_ok (demo_store\<lparr>trace := [StoreGet]\<rparr>)"
    by (simp add: next_set_ok_def demo_store_def)
  have t: "truthy (field (body bare_image_post) ''title'')"
    "truthy (field (body bare_image_post) ''productUrl'')"
    by (simp_all add: bare_image_post_def)
  have "handler demo_env demo_store bare_image_post = handler_POST demo_env demo_store bare_image_post"
    by (simp add: handler_def demo_key_authorizes bare_image_post_def post_request_def)
  then have run: "handler demo_env demo_store bare_image_post =
      (respond 201 (Json (newProduct demo_env (body bare_image_post))),
       demo_store\<lparr>trace := [StoreGet,
            StoreSet (JArr (demo_catalog @ [newProduct demo_env (body bare_image_post)]))],
          products_val := JArr (demo_catalog @ [newProduct demo_env (body bare_image_post)]),
          set_faults := tl (set_faults (demo_store\<lparr>trace := [StoreGet]\<rparr>))\<rparr>)"
    by (simp add: handler_POST_success [OF t demo_read wr])
  have "status (respond 201 (Json (newProduct demo_env (body bare_image_post)))) = 201"
    by (simp add: respond_def)
  from created_product_defaults_on_falsy [OF run this] run
  show ?thesis
    by (auto simp: respond_def bare_image_post_def)
qed

subsection \<open>Lookup by id\<close>

lemma strict_eq_string: "strict_eq (JStr a) v = (JStr a = v)"
  by (cases v) auto

lemma is_product_id_string: "is_product p \<Longrightarrow> \<exists>i. field p ''id'' = JStr i"
  by (cases "field p ''id''") (auto simp: is_product_def)

lemma is_product_truthy: "is_product p \<Longrightarrow> truthy p"
  by (cases p) (auto simp: is_product_def)

lemma js_find_by_id:
  assumes "\<forall>p\<in>set ps. is_product p"
  shows "js_find (\<lambda>product. case get_prop product ''id'' of
                               Inl err \<Rightarrow> Inl err
                             | Inr i \<Rightarrow> Inr (strict_eq i v)) ps =
         Inr (case find (\<lambda>p. field p ''id'' = v) ps of None \<Rightarrow> JUndefined | Some p \<Rightarrow> p)"
  using assms
proof (induction ps)
  case Nil
  then show ?case by simp
next
  case (Cons p ps)
  from Cons.prems have prod: "is_product p" by simp
  then obtain i where i: "field p ''id'' = JStr i"
    using is_product_id_string by blast
  from prod have "\<not> nullish p" by (rule is_product_not_nullish)
  with Cons i show ?case
    by (simp add: get_prop_def strict_eq_string)
qed

lemma find_is_product:
  "\<forall>p\<in>set ps. is_product p \<Longrightarrow> find P ps = Some p \<Longrightarrow> is_product p"
  by (induction ps) (auto split: if_splits)

lemma getProductById_catalog:
  assumes rd: "readProducts e s = (Inr (JArr ps), s1)" and cat: "list_all is_product ps"
  shows "getProductById e s v =
     (Inr (case find (\<lambda>p. field p ''id'' = v) ps of None \<Rightarrow> JNull | Some p \<Rightarrow> p), s1)"
proof -
  from cat have prods: "\<forall>p\<in>set ps. is_product p"
    by (simp add: list_all_iff)
  show ?thesis
  proof (cases "find (\<lambda>p. field p ''id'' = v) ps")
    case None
    then show ?thesis
      by (simp add: getProductById_def rd js_find_by_id [OF prods] js_or_def)
  next
    case (Some p)
    with prods have "truthy p"
      using find_is_product is_product_truthy by blast
    with Some show ?thesis
      by (simp add: getProductById_def rd js_find_by_id [OF prods] js_or_def)
  qed
qed

text \<open>
  C6. For a GET request with a non-empty id query parameter, when \<open>readProducts\<close> yields
  a catalog \<open>ps\<close>: if no Product of \<open>ps\<close> has exactly that id, \<open>getProductById\<close> returns
  null (it does not throw) and the handler answers 404; otherwise \<open>getProductById\<close>
  returns the first Product of \<open>ps\<close> with that id and the handler answers 200 with it.
\<close>

theorem handler_GET_by_id:
  assumes get: "req_method r = ''GET''"
    and id: "query r ''id'' = Some q"
    and nonempty: "truthy (of_query (Some q))"
    and rd: "readProducts e s = (Inr (JArr ps), s1)"
    and cat: "list_all is_product ps"
  shows "case find (\<lambda>p. field p ''id'' = of_query (Some q)) ps of
           None \<Rightarrow> getProductById e s (of_query (Some q)) = (Inr JNull, s1)
                    \<and> status (fst (handler e s r)) = 404
         | Some p \<Rightarrow> getProductById e s (of_query (Some q)) = (Inr p, s1)
                    \<and> fst (handler e s r) = respond 200 (Json p)"
proof -
  have disp: "handler e s r = handler_GET e s r"
    using get by (simp add: handler_def)
  show ?thesis
  proof (cases "find (\<lambda>p. field p ''id'' = of_query (Some q)) ps")
    case None
    then show ?thesis
      using id nonempty
      by (simp add: disp handler_GET_def getProductById_catalog [OF rd cat] respond_def)
  next
    case (Some p)
    from cat have "\<forall>p\<in>set ps. is_product p"
      by (simp add: list_all_iff)
    with Some have "truthy p"
      using find_is_product is_product_truthy by blast
    with Some show ?thesis
      using id nonempty
      by (simp add: disp handler_GET_def getProductById_catalog [OF rd cat])
  qed
qed

theorem handler_GET_by_id_witness:
  "fst (handler demo_env demo_store (get_request ''id'' ''2'')) = respond 200 (Json mug)
   \<and> status (fst (handler demo_env demo_store (get_request ''id'' ''22''))) = 404
   \<and> getProductById demo_env demo_store (JStr ''22'') =
       (Inr JNull, demo_store\<lparr>trace := [StoreGet]\<rparr>)"
proof -
  have m: "req_method (get_request ''id'' v) = ''GET''"
    and q: "query (get_request ''id'' v) ''id'' = Some (QStr v)" for v
    by (simp_all add: get_request_def)
  have t: "truthy (of_query (Some (QStr ''2'')))" "truthy (of_query (Some (QStr ''22'')))"
    by simp_all
  from handler_GET_by_id [OF m q t(1) demo_read demo_catalog_products]
    handler_GET_by_id [OF m q t(2) demo_read demo_catalog_products]
  show ?thesis
    by (simp add: demo_catalog_def shirt_def mug_def cap_def)
qed

subsection \<open>Search by title\<close>




















end
